theory Spec2Isabelle
  imports Main "HOL-Library.Word" "HOL-Library.Monad_Syntax"
begin

section \<open>MP3 frame header parsing (media/formats/mpeg/mp3_stream_parser.cc)\<close>

subsection \<open>Data\<close>

type_synonym uint8 = "8 word"

datatype ChannelLayout = CHANNEL_LAYOUT_MONO | CHANNEL_LAYOUT_STEREO

text \<open>
  The lookup tables, row by row as in the source. C++ aggregate initialisation
  zero-fills what an initialiser leaves out: \<open>kIsAllowed\<close> is declared with 17 rows
  and given 16, so its row 16 is all \<open>false\<close>; the last row of \<open>kBitrateMap\<close> is given
  five of its six elements, so the sixth is 0.
\<close>

definition kIsAllowed :: "bool list list" where
  "kIsAllowed = [
    [True, True, True, True],
    [True, False, False, False],
    [True, False, False, False],
    [True, False, False, False],
    [True, True, True, True],
    [True, False, False, False],
    [True, True, True, True],
    [True, True, True, True],
    [True, True, True, True],
    [True, True, True, True],
    [True, True, True, True],
    [False, True, True, True],
    [False, True, True, True],
    [False, True, True, True],
    [False, True, True, True],
    [False, False, False, False],
    [False, False, False, False]]"

definition kVersionLayerMap :: "int list list" where
  "kVersionLayerMap = [
    [5, 4, 4, 3],
    [5, 5, 5, 5],
    [5, 4, 4, 3],
    [5, 2, 1, 0]]"

definition kBitrateMap :: "int list list" where
  "kBitrateMap = [
    [0, 0, 0, 0, 0, 0],
    [32, 32, 32, 32, 8, 0],
    [64, 48, 40, 48, 16, 0],
    [96, 56, 48, 56, 24, 0],
    [128, 64, 56, 64, 32, 0],
    [160, 80, 64, 80, 40, 0],
    [192, 96, 80, 96, 48, 0],
    [224, 112, 96, 112, 56, 0],
    [256, 128, 112, 128, 64, 0],
    [288, 160, 128, 144, 80, 0],
    [320, 192, 160, 160, 96, 0],
    [352, 224, 192, 176, 112, 0],
    [384, 256, 224, 192, 128, 0],
    [416, 320, 256, 224, 144, 0],
    [448, 384, 320, 256, 160, 0],
    [0, 0, 0, 0, 0, 0]]"

definition kSampleRateMap :: "int list list" where
  "kSampleRateMap = [
    [11025, 0, 22050, 44100],
    [12000, 0, 24000, 48000],
    [8000, 0, 16000, 32000],
    [0, 0, 0, 0]]"

text \<open>Frame header field constants.\<close>

definition kVersion2 :: int where "kVersion2 = 2"
definition kVersionReserved :: int where "kVersionReserved = 1"
definition kVersion2_5 :: int where "kVersion2_5 = 0"
definition kLayerReserved :: int where "kLayerReserved = 0"
definition kLayer1 :: int where "kLayer1 = 3"
definition kLayer2 :: int where "kLayer2 = 2"
definition kLayer3 :: int where "kLayer3 = 1"
definition kBitrateFree :: int where "kBitrateFree = 0"
definition kBitrateBad :: int where "kBitrateBad = 0xf"
definition kSampleRateReserved :: int where "kSampleRateReserved = 3"

subsection \<open>The bit reader\<close>

text \<open>
  Modelled from the spec: \<open>media::BitReader\<close> (constructor and \<open>ReadBits\<close>), which the
  parser calls and whose source is in another file. The spec (section 4.2) gives it as
  sequential extraction of a bit count from a fixed byte buffer, most significant bit
  first, advancing an internal cursor, and failing when the requested count would read
  past the end of the buffer. The reader's state is the sequence of bits not yet read.
\<close>

type_synonym BitReader = "bool list"

definition bits_of_byte :: "uint8 \<Rightarrow> bool list" where
  "bits_of_byte b = map (bit b) [7, 6, 5, 4, 3, 2, 1, 0]"

definition BitReader_new :: "uint8 list \<Rightarrow> BitReader" where
  "BitReader_new data = concat (map bits_of_byte data)"

fun bits_value :: "int \<Rightarrow> bool list \<Rightarrow> int" where
  "bits_value acc [] = acc"
| "bits_value acc (b # bs) = bits_value (2 * acc + (if b then 1 else 0)) bs"

definition ReadBits :: "nat \<Rightarrow> BitReader \<Rightarrow> (int \<times> BitReader) option" where
  "ReadBits num_bits reader =
     (if length reader < num_bits then None
      else Some (bits_value 0 (take num_bits reader), drop num_bits reader))"

subsection \<open>The header fields\<close>

record Header =
  sync :: int
  version :: int
  layer :: int
  is_protected :: int
  bitrate_index :: int
  sample_rate_index :: int
  has_padding :: int
  is_private :: int
  channel_mode :: int
  other_flags :: int

text \<open>
  The chain of ten \<open>ReadBits\<close> calls joined by \<open>||\<close>: the first read that fails ends
  the chain, and the parser then returns -1.
\<close>

definition ReadHeader :: "BitReader \<Rightarrow> Header option" where
  "ReadHeader reader = do {
     (sync_v, r1) \<leftarrow> ReadBits 11 reader;
     (version_v, r2) \<leftarrow> ReadBits 2 r1;
     (layer_v, r3) \<leftarrow> ReadBits 2 r2;
     (is_protected_v, r4) \<leftarrow> ReadBits 1 r3;
     (bitrate_index_v, r5) \<leftarrow> ReadBits 4 r4;
     (sample_rate_index_v, r6) \<leftarrow> ReadBits 2 r5;
     (has_padding_v, r7) \<leftarrow> ReadBits 1 r6;
     (is_private_v, r8) \<leftarrow> ReadBits 1 r7;
     (channel_mode_v, r9) \<leftarrow> ReadBits 2 r8;
     (other_flags_v, r10) \<leftarrow> ReadBits 6 r9;
     Some \<lparr> sync = sync_v, version = version_v, layer = layer_v,
            is_protected = is_protected_v, bitrate_index = bitrate_index_v,
            sample_rate_index = sample_rate_index_v, has_padding = has_padding_v,
            is_private = is_private_v, channel_mode = channel_mode_v,
            other_flags = other_flags_v \<rparr>
   }"

subsection \<open>Output parameters\<close>

text \<open>
  Each output parameter is a pointer the caller passes: \<open>nullptr\<close>, or \<open>Ptr v\<close> for a
  pointer to a location of the caller's that holds \<open>v\<close>. The four locations are taken
  to be distinct. A call either returns, with its \<open>int\<close> result and the locations as it
  leaves them, or stops at a failed \<open>DCHECK\<close>, or writes through a null pointer.
\<close>

datatype 'a ptr = nullptr | Ptr 'a

record out_params =
  frame_size :: "int ptr"
  sample_rate :: "int ptr"
  channel_layout :: "ChannelLayout ptr"
  sample_count :: "int ptr"

datatype outcome = Returned int out_params | DcheckFailure | NullDereference

subsection \<open>ParseFrameHeader\<close>

text \<open>The validity test on the raw fields (the first \<open>if\<close> after the reads).\<close>

definition invalid_header_data :: "Header \<Rightarrow> bool" where
  "invalid_header_data h \<longleftrightarrow>
     sync h \<noteq> 0x7ff \<or>
     version h = kVersionReserved \<or>
     layer h = kLayerReserved \<or>
     bitrate_index h = kBitrateFree \<or> bitrate_index h = kBitrateBad \<or>
     sample_rate_index h = kSampleRateReserved"

text \<open>The Layer II test as the source has it: it fires when the table entry is true.\<close>

definition layer2_combination_rejected :: "Header \<Rightarrow> bool" where
  "layer2_combination_rejected h \<longleftrightarrow>
     layer h = kLayer2 \<and> kIsAllowed ! nat (bitrate_index h) ! nat (channel_mode h)"

definition bitrate_column :: "Header \<Rightarrow> int" where
  "bitrate_column h = kVersionLayerMap ! nat (version h) ! nat (layer h)"

definition bitrate_of :: "Header \<Rightarrow> int" where
  "bitrate_of h = kBitrateMap ! nat (bitrate_index h) ! nat (bitrate_column h)"

definition frame_sample_rate_of :: "Header \<Rightarrow> int" where
  "frame_sample_rate_of h = kSampleRateMap ! nat (sample_rate_index h) ! nat (version h)"

text \<open>The \<open>switch (layer)\<close>; \<open>None\<close> is its \<open>default\<close> branch, which returns -1.\<close>

definition samples_per_frame_of :: "Header \<Rightarrow> int option" where
  "samples_per_frame_of h =
     (if layer h = kLayer1 then Some 384
      else if layer h = kLayer2 then Some 1152
      else if layer h = kLayer3 then
        (if version h = kVersion2 \<or> version h = kVersion2_5 then Some 576 else Some 1152)
      else None)"

text \<open>
  The value left in \<open>*frame_size\<close>: the layer-dependent assignment, then the padding
  increment. All operands are positive, so the truncating division of C++ is \<open>div\<close>;
  \<open>frame_size_arithmetic_in_int_range\<close> below shows that no product leaves the range
  of a 32-bit \<open>int\<close>.
\<close>

definition frame_size_value :: "Header \<Rightarrow> int \<Rightarrow> int \<Rightarrow> int \<Rightarrow> int" where
  "frame_size_value h bitrate frame_sample_rate samples_per_frame =
     (let fs = (if layer h = kLayer1
                then 4 * (12 * bitrate * 1000 div frame_sample_rate)
                else ((samples_per_frame div 8) * bitrate * 1000) div frame_sample_rate)
      in if has_padding h \<noteq> 0 then fs + (if layer h = kLayer1 then 4 else 1) else fs)"

text \<open>
  The part of the function after the header has been read and has passed the checks:
  the writes, in the order of the source. \<open>sample_rate\<close>, \<open>sample_count\<close> and
  \<open>channel_layout\<close> are written under a null test, \<open>frame_size\<close> without one.
\<close>

definition write_outputs :: "Header \<Rightarrow> int \<Rightarrow> int \<Rightarrow> out_params \<Rightarrow> outcome" where
  "write_outputs h bitrate frame_sample_rate outs =
     (let outs1 = (if sample_rate outs \<noteq> nullptr
                   then outs\<lparr>sample_rate := Ptr frame_sample_rate\<rparr> else outs)
      in case samples_per_frame_of h of
           None \<Rightarrow> Returned (- 1) outs1
         | Some samples_per_frame \<Rightarrow>
             (let outs2 = (if sample_count outs1 \<noteq> nullptr
                           then outs1\<lparr>sample_count := Ptr samples_per_frame\<rparr> else outs1)
              in if frame_size outs2 = nullptr then NullDereference
                 else
                   (let outs3 = outs2\<lparr>frame_size :=
                          Ptr (frame_size_value h bitrate frame_sample_rate samples_per_frame)\<rparr>;
                        outs4 = (if channel_layout outs3 \<noteq> nullptr
                                 then outs3\<lparr>channel_layout :=
                                        Ptr (if channel_mode h = 3 then CHANNEL_LAYOUT_MONO
                                             else CHANNEL_LAYOUT_STEREO)\<rparr>
                                 else outs3)
                    in Returned 4 outs4)))"

text \<open>
  \<open>ParseFrameHeader\<close>. The buffer \<open>data\<close> with its \<open>size\<close> readable bytes is the list
  of those bytes, so \<open>DCHECK(data)\<close> holds by construction and \<open>size\<close> is the length.
  \<open>dcheck_is_on\<close> is the build setting that decides whether a \<open>DCHECK\<close> is compiled in.
\<close>

definition ParseFrameHeader :: "bool \<Rightarrow> uint8 list \<Rightarrow> out_params \<Rightarrow> outcome" where
  "ParseFrameHeader dcheck_is_on data outs =
     (let size = int (length data) in
      if dcheck_is_on \<and> \<not> (size \<ge> 0 \<and> frame_size outs \<noteq> nullptr) then DcheckFailure
      else if size < 4 then Returned 0 outs
      else case ReadHeader (BitReader_new data) of
             None \<Rightarrow> Returned (- 1) outs
           | Some h \<Rightarrow>
               if invalid_header_data h then Returned (- 1) outs
               else if layer2_combination_rejected h then Returned (- 1) outs
               else
                 (let bitrate = bitrate_of h in
                  if bitrate = 0 then Returned (- 1) outs
                  else
                    (let frame_sample_rate = frame_sample_rate_of h in
                     if frame_sample_rate = 0 then Returned (- 1) outs
                     else write_outputs h bitrate frame_sample_rate outs)))"

text \<open>The value ranges that the widths of the reads give the fields the parser uses.\<close>

definition fields_in_range :: "Header \<Rightarrow> bool" where
  "fields_in_range h \<longleftrightarrow>
     0 \<le> sync h \<and> sync h < 2048 \<and>
     0 \<le> version h \<and> version h < 4 \<and>
     0 \<le> layer h \<and> layer h < 4 \<and>
     0 \<le> bitrate_index h \<and> bitrate_index h < 16 \<and>
     0 \<le> sample_rate_index h \<and> sample_rate_index h < 4 \<and>
     0 \<le> has_padding h \<and> has_padding h < 2 \<and>
     0 \<le> channel_mode h \<and> channel_mode h < 4"

section \<open>Basic facts\<close>

lemmas field_constants =
  kVersion2_def kVersionReserved_def kVersion2_5_def kLayerReserved_def kLayer1_def
  kLayer2_def kLayer3_def kBitrateFree_def kBitrateBad_def kSampleRateReserved_def

lemmas eval_defs =
  ParseFrameHeader_def ReadHeader_def BitReader_new_def bits_of_byte_def ReadBits_def
  invalid_header_data_def layer2_combination_rejected_def bitrate_column_def bitrate_of_def
  frame_sample_rate_of_def samples_per_frame_of_def frame_size_value_def write_outputs_def
  kIsAllowed_def kVersionLayerMap_def kBitrateMap_def kSampleRateMap_def field_constants
  Let_def

subsection \<open>Reading the header\<close>

lemma bits_value_bounds:
  "0 \<le> acc \<Longrightarrow>
   acc * 2 ^ length bs \<le> bits_value acc bs \<and> bits_value acc bs < (acc + 1) * 2 ^ length bs"
proof (induction bs arbitrary: acc)
  case Nil
  then show ?case by simp
next
  case (Cons b bs)
  have "0 \<le> 2 * acc + (if b then 1 else 0)" using Cons.prems by simp
  from Cons.IH [OF this] show ?case
    by (cases b) (auto simp: algebra_simps)
qed

lemma bits_value_take_range:
  "0 \<le> bits_value 0 (take n bs) \<and> bits_value 0 (take n bs) < 2 ^ n"
proof -
  have "bits_value 0 (take n bs) < 2 ^ length (take n bs)"
    using bits_value_bounds [of 0 "take n bs"] by simp
  also have "(2::int) ^ length (take n bs) \<le> 2 ^ n"
    by (rule power_increasing) simp_all
  finally show ?thesis using bits_value_bounds [of 0 "take n bs"] by simp
qed

lemma length_BitReader_new: "length (BitReader_new data) = 8 * length data"
  by (induction data) (simp_all add: BitReader_new_def bits_of_byte_def)

lemma ReadBits_enough:
  "n \<le> length reader \<Longrightarrow>
   ReadBits n reader = Some (bits_value 0 (take n reader), drop n reader)"
  by (simp add: ReadBits_def)

text \<open>With 32 bits to read, every read of the chain succeeds; the fields are bit slices.\<close>

lemma ReadHeader_enough:
  assumes "32 \<le> length reader"
  shows "ReadHeader reader = Some
     \<lparr> sync = bits_value 0 (take 11 reader),
       version = bits_value 0 (take 2 (drop 11 reader)),
       layer = bits_value 0 (take 2 (drop 13 reader)),
       is_protected = bits_value 0 (take 1 (drop 15 reader)),
       bitrate_index = bits_value 0 (take 4 (drop 16 reader)),
       sample_rate_index = bits_value 0 (take 2 (drop 20 reader)),
       has_padding = bits_value 0 (take 1 (drop 22 reader)),
       is_private = bits_value 0 (take 1 (drop 23 reader)),
       channel_mode = bits_value 0 (take 2 (drop 24 reader)),
       other_flags = bits_value 0 (take 6 (drop 26 reader)) \<rparr>"
  using assms by (simp add: ReadHeader_def ReadBits_enough)

lemma ReadHeader_total:
  assumes "4 \<le> length data"
  shows "\<exists>h. ReadHeader (BitReader_new data) = Some h \<and> fields_in_range h"
proof -
  have "32 \<le> length (BitReader_new data)"
    using assms by (simp add: length_BitReader_new)
  from ReadHeader_enough [OF this] show ?thesis
    using bits_value_take_range [of 11] bits_value_take_range [of 2]
      bits_value_take_range [of 4] bits_value_take_range [of 1]
    by (simp add: fields_in_range_def)
qed

lemma ReadHeader_Some_length:
  "ReadHeader reader = Some h \<Longrightarrow> 32 \<le> length reader"
  by (auto simp: ReadHeader_def ReadBits_def split: if_splits Option.bind_splits)

lemma ReadHeader_Some_range:
  assumes "ReadHeader reader = Some h"
  shows "fields_in_range h"
proof -
  have "32 \<le> length reader" using assms by (rule ReadHeader_Some_length)
  from ReadHeader_enough [OF this] assms show ?thesis
    using bits_value_take_range [of 11] bits_value_take_range [of 2]
      bits_value_take_range [of 4] bits_value_take_range [of 1]
    by (auto simp add: fields_in_range_def)
qed

subsection \<open>What validation leaves of the fields\<close>

lemma valid_version:
  "fields_in_range h \<Longrightarrow> \<not> invalid_header_data h \<Longrightarrow>
   version h = 0 \<or> version h = 2 \<or> version h = 3"
  unfolding fields_in_range_def invalid_header_data_def field_constants by arith

lemma valid_layer:
  "fields_in_range h \<Longrightarrow> \<not> invalid_header_data h \<Longrightarrow>
   layer h = 1 \<or> layer h = 2 \<or> layer h = 3"
  unfolding fields_in_range_def invalid_header_data_def field_constants by arith

lemma valid_sample_rate_index:
  "fields_in_range h \<Longrightarrow> \<not> invalid_header_data h \<Longrightarrow>
   sample_rate_index h = 0 \<or> sample_rate_index h = 1 \<or> sample_rate_index h = 2"
  unfolding fields_in_range_def invalid_header_data_def field_constants by arith

lemma valid_bitrate_index:
  "fields_in_range h \<Longrightarrow> \<not> invalid_header_data h \<Longrightarrow>
   1 \<le> bitrate_index h \<and> bitrate_index h \<le> 14"
  unfolding fields_in_range_def invalid_header_data_def field_constants by arith

lemma valid_bitrate_column:
  assumes "fields_in_range h" "\<not> invalid_header_data h"
  shows "bitrate_column h \<in> {0, 1, 2, 3, 4}"
  using valid_version [OF assms] valid_layer [OF assms]
  by (auto simp: bitrate_column_def kVersionLayerMap_def)

lemma valid_samples_per_frame:
  assumes "fields_in_range h" "\<not> invalid_header_data h"
  shows "\<exists>spf. samples_per_frame_of h = Some spf \<and> spf \<in> {384, 576, 1152}"
  using valid_layer [OF assms]
  by (auto simp: samples_per_frame_of_def field_constants)

lemma valid_frame_sample_rate:
  assumes "fields_in_range h" "\<not> invalid_header_data h"
  shows "frame_sample_rate_of h \<in>
    {11025, 22050, 44100, 12000, 24000, 48000, 8000, 16000, 32000}"
  using valid_version [OF assms] valid_sample_rate_index [OF assms]
  by (auto simp: frame_sample_rate_of_def kSampleRateMap_def)

lemma kBitrateMap_entries:
  "\<forall>row \<in> set kBitrateMap. length row = 6 \<and> (\<forall>x \<in> set row. x = 0 \<or> 8 \<le> x \<and> x \<le> 448)"
  by (simp add: kBitrateMap_def)

lemma valid_bitrate:
  assumes "fields_in_range h" "\<not> invalid_header_data h"
  shows "bitrate_of h = 0 \<or> 8 \<le> bitrate_of h \<and> bitrate_of h \<le> 448"
proof -
  let ?row = "kBitrateMap ! nat (bitrate_index h)"
  have "length kBitrateMap = 16" by (simp add: kBitrateMap_def)
  then have "nat (bitrate_index h) < length kBitrateMap"
    using valid_bitrate_index [OF assms] by arith
  then have row: "?row \<in> set kBitrateMap" by (rule nth_mem)
  with kBitrateMap_entries have len: "length ?row = 6" by blast
  have "nat (bitrate_column h) < 6"
    using valid_bitrate_column [OF assms] by auto
  with len have "?row ! nat (bitrate_column h) \<in> set ?row" by simp
  with row kBitrateMap_entries show ?thesis
    unfolding bitrate_of_def by blast
qed

subsection \<open>The paths through ParseFrameHeader\<close>

lemma write_outputs_frame_size_provided:
  assumes "frame_size outs \<noteq> nullptr" "samples_per_frame_of h = Some spf"
  shows "write_outputs h bitrate fsr outs = Returned 4
     \<lparr> frame_size = Ptr (frame_size_value h bitrate fsr spf),
       sample_rate = (if sample_rate outs = nullptr then nullptr else Ptr fsr),
       channel_layout = (if channel_layout outs = nullptr then nullptr
                         else Ptr (if channel_mode h = 3 then CHANNEL_LAYOUT_MONO
                                   else CHANNEL_LAYOUT_STEREO)),
       sample_count = (if sample_count outs = nullptr then nullptr else Ptr spf) \<rparr>"
  using assms by (simp add: write_outputs_def Let_def)

lemma write_outputs_frame_size_null:
  assumes "frame_size outs = nullptr" "samples_per_frame_of h = Some spf"
  shows "write_outputs h bitrate fsr outs = NullDereference"
  using assms by (simp add: write_outputs_def Let_def)

lemma ParseFrameHeader_long:
  assumes "4 \<le> length data" "dcheck_is_on \<longrightarrow> frame_size outs \<noteq> nullptr"
    "ReadHeader (BitReader_new data) = Some h"
  shows "ParseFrameHeader dcheck_is_on data outs =
     (if invalid_header_data h \<or> layer2_combination_rejected h \<or> bitrate_of h = 0 \<or>
         frame_sample_rate_of h = 0 then Returned (- 1) outs
      else write_outputs h (bitrate_of h) (frame_sample_rate_of h) outs)"
  using assms by (auto simp: ParseFrameHeader_def Let_def)

lemma ParseFrameHeader_success:
  assumes "ParseFrameHeader dcheck_is_on data outs = Returned 4 outs'"
  shows "\<exists>h spf. 4 \<le> length data \<and> ReadHeader (BitReader_new data) = Some h \<and>
     fields_in_range h \<and> \<not> invalid_header_data h \<and> \<not> layer2_combination_rejected h \<and>
     bitrate_of h \<noteq> 0 \<and> frame_sample_rate_of h \<noteq> 0 \<and>
     samples_per_frame_of h = Some spf \<and> frame_size outs \<noteq> nullptr \<and>
     outs' = \<lparr> frame_size =
                Ptr (frame_size_value h (bitrate_of h) (frame_sample_rate_of h) spf),
       sample_rate =
         (if sample_rate outs = nullptr then nullptr else Ptr (frame_sample_rate_of h)),
       channel_layout = (if channel_layout outs = nullptr then nullptr
                         else Ptr (if channel_mode h = 3 then CHANNEL_LAYOUT_MONO
                                   else CHANNEL_LAYOUT_STEREO)),
       sample_count = (if sample_count outs = nullptr then nullptr else Ptr spf) \<rparr>"
proof -
  have len: "4 \<le> length data"
    using assms by (auto simp: ParseFrameHeader_def Let_def split: if_splits)
  have pre: "dcheck_is_on \<longrightarrow> frame_size outs \<noteq> nullptr"
    using assms by (auto simp: ParseFrameHeader_def Let_def split: if_splits)
  from ReadHeader_total [OF len] obtain h where
    h: "ReadHeader (BitReader_new data) = Some h" and rng: "fields_in_range h" by blast
  note long = ParseFrameHeader_long [OF len pre h]
  have ok: "\<not> invalid_header_data h" "\<not> layer2_combination_rejected h"
    "bitrate_of h \<noteq> 0" "frame_sample_rate_of h \<noteq> 0"
    using assms long by (auto split: if_splits)
  then have w: "write_outputs h (bitrate_of h) (frame_sample_rate_of h) outs = Returned 4 outs'"
    using assms long by simp
  from valid_samples_per_frame [OF rng ok(1)] obtain spf where
    spf: "samples_per_frame_of h = Some spf" by blast
  have fs: "frame_size outs \<noteq> nullptr"
    using w write_outputs_frame_size_null [OF _ spf] by force
  from w write_outputs_frame_size_provided [OF fs spf] h rng ok spf fs len
  show ?thesis by simp
qed

lemma ParseFrameHeader_short:
  assumes "length data < 4" "dcheck_is_on \<longrightarrow> frame_size outs \<noteq> nullptr"
  shows "ParseFrameHeader dcheck_is_on data outs = Returned 0 outs"
  using assms by (auto simp: ParseFrameHeader_def Let_def)

subsection \<open>Arithmetic of the frame size\<close>

lemma int_le_div:
  "0 < (d::int) \<Longrightarrow> k * d \<le> x \<Longrightarrow> k \<le> x div d"
  using zdiv_mono1 [of "k * d" x d] by simp

lemma int_div_le_self:
  "0 \<le> (x::int) \<Longrightarrow> 0 < d \<Longrightarrow> x div d \<le> x"
  using zdiv_mono2 [of x 1 d] by simp

lemma frame_size_value_ge_4:
  assumes b: "8 \<le> bitrate" and sr: "0 < fsr" "fsr \<le> 48000"
    and spf: "spf \<in> {384, 576, 1152}" and pad: "0 \<le> has_padding h"
  shows "4 \<le> frame_size_value h bitrate fsr spf"
proof -
  have l1: "1 \<le> 12 * bitrate * 1000 div fsr"
    using b sr by (intro int_le_div) auto
  have l23: "4 \<le> (spf div 8) * bitrate * 1000 div fsr"
    using b sr spf by (intro int_le_div) auto
  show ?thesis
    using l1 l23 pad by (auto simp: frame_size_value_def Let_def)
qed

text \<open>
  For a header that passes the checks, every intermediate value of the frame size
  computation is positive and below \<open>2 ^ 31\<close>: the \<open>int\<close> arithmetic of the source does
  not overflow, and its division, on positive operands, is \<open>div\<close>.
\<close>

lemma frame_size_arithmetic_in_int_range:
  assumes rng: "fields_in_range h" and ok: "\<not> invalid_header_data h"
    and b0: "bitrate_of h \<noteq> 0" and spf: "samples_per_frame_of h = Some spf"
  shows "0 < frame_sample_rate_of h \<and>
     0 < 12 * bitrate_of h * 1000 \<and> 12 * bitrate_of h * 1000 < 2 ^ 31 \<and>
     0 < (spf div 8) * bitrate_of h * 1000 \<and> (spf div 8) * bitrate_of h * 1000 < 2 ^ 31 \<and>
     0 \<le> 4 * (12 * bitrate_of h * 1000 div frame_sample_rate_of h) \<and>
     4 * (12 * bitrate_of h * 1000 div frame_sample_rate_of h) + 4 < 2 ^ 31 \<and>
     0 \<le> (spf div 8) * bitrate_of h * 1000 div frame_sample_rate_of h \<and>
     (spf div 8) * bitrate_of h * 1000 div frame_sample_rate_of h + 4 < 2 ^ 31"
proof -
  have b: "8 \<le> bitrate_of h" "bitrate_of h \<le> 448"
    using valid_bitrate [OF rng ok] b0 by auto
  have sr: "0 < frame_sample_rate_of h"
    using valid_frame_sample_rate [OF rng ok] by auto
  have s: "spf \<in> {384, 576, 1152}"
    using valid_samples_per_frame [OF rng ok] spf by auto
  have p1: "0 < 12 * bitrate_of h * 1000" "12 * bitrate_of h * 1000 \<le> 5376000"
    using b by auto
  have p2: "0 < (spf div 8) * bitrate_of h * 1000"
    "(spf div 8) * bitrate_of h * 1000 \<le> 64512000"
    using b s by auto
  have d1: "12 * bitrate_of h * 1000 div frame_sample_rate_of h \<le> 5376000"
    using int_div_le_self [of "12 * bitrate_of h * 1000" "frame_sample_rate_of h"] p1 sr
    by linarith
  have d1': "0 \<le> 12 * bitrate_of h * 1000 div frame_sample_rate_of h"
    using p1 sr by (simp add: pos_imp_zdiv_nonneg_iff)
  have d2: "(spf div 8) * bitrate_of h * 1000 div frame_sample_rate_of h \<le> 64512000"
    using int_div_le_self [of "(spf div 8) * bitrate_of h * 1000" "frame_sample_rate_of h"]
      p2 sr
    by linarith
  have d2': "0 \<le> (spf div 8) * bitrate_of h * 1000 div frame_sample_rate_of h"
    using p2 sr by (simp add: pos_imp_zdiv_nonneg_iff)
  show ?thesis using sr p1 p2 d1 d1' d2 d2' by simp
qed


section \<open>The claims\<close>

text \<open>
  Throughout, \<open>ReadHeader (BitReader_new data) = Some h\<close> says that \<open>h\<close> holds the ten
  fields extracted from the first 32 bits of the buffer. The return value 4 is success
  (four bytes consumed), 0 is insufficient data and -1 is the invalid-header signal; on
  the last two no byte is consumed.
\<close>

subsection \<open>C1: the Layer II combination check\<close>

text \<open>
  C1 says that a Layer II header which passes the field checks is rejected exactly when
  its (bitrate_index, channel_mode) pair is marked \<open>false\<close> in \<open>kIsAllowed\<close>. The source
  tests \<open>kIsAllowed[bitrate_index][channel_mode]\<close> without a negation, so it does the
  opposite. The header FF FD 80 00 (MPEG1, Layer II, bitrate index 8 = 128 kbps,
  44100 Hz, stereo) has a pair marked \<open>true\<close> and valid bitrate and sample rate, and is
  rejected with -1; the header FF FD 10 40 (bitrate index 1 = 32 kbps, joint stereo) has
  a pair marked \<open>false\<close> and is accepted.
\<close>

theorem C1_layer2_check_inverted:
  "ReadHeader (BitReader_new [0xFF, 0xFD, 0x80, 0x00]) =
     Some \<lparr>sync = 0x7FF, version = 3, layer = 2, is_protected = 1, bitrate_index = 8,
       sample_rate_index = 0, has_padding = 0, is_private = 0, channel_mode = 0,
       other_flags = 0\<rparr> \<and>
   kLayer2 = 2 \<and>
   kIsAllowed ! 8 ! 0 = True \<and>
   kBitrateMap ! 8 ! nat (kVersionLayerMap ! 3 ! 2) = 128 \<and>
   kSampleRateMap ! 0 ! 3 = 44100 \<and>
   ParseFrameHeader False [0xFF, 0xFD, 0x80, 0x00]
     \<lparr>frame_size = Ptr 0, sample_rate = Ptr 0, channel_layout = Ptr CHANNEL_LAYOUT_MONO,
      sample_count = Ptr 0\<rparr> =
   Returned (- 1) \<lparr>frame_size = Ptr 0, sample_rate = Ptr 0,
      channel_layout = Ptr CHANNEL_LAYOUT_MONO, sample_count = Ptr 0\<rparr> \<and>
   ReadHeader (BitReader_new [0xFF, 0xFD, 0x10, 0x40]) =
     Some \<lparr>sync = 0x7FF, version = 3, layer = 2, is_protected = 1, bitrate_index = 1,
       sample_rate_index = 0, has_padding = 0, is_private = 0, channel_mode = 1,
       other_flags = 0\<rparr> \<and>
   kIsAllowed ! 1 ! 1 = False \<and>
   ParseFrameHeader False [0xFF, 0xFD, 0x10, 0x40]
     \<lparr>frame_size = Ptr 0, sample_rate = Ptr 0, channel_layout = Ptr CHANNEL_LAYOUT_MONO,
      sample_count = Ptr 0\<rparr> =
   Returned 4 \<lparr>frame_size = Ptr 104, sample_rate = Ptr 44100,
      channel_layout = Ptr CHANNEL_LAYOUT_STEREO, sample_count = Ptr 1152\<rparr>"
  by (simp add: eval_defs)

subsection \<open>C2: which output parameters may be omitted\<close>

text \<open>
  C2 as stated lets the caller omit any of the four output parameters. That fails for
  \<open>frame_size\<close>: the function asserts \<open>DCHECK(frame_size)\<close> on entry and assigns
  \<open>*frame_size\<close> without a null test. With \<open>frame_size\<close> null and the valid header
  FF FB 90 00, a build without \<open>DCHECK\<close>s writes through the null pointer and a build
  with them stops at the assertion.
\<close>

theorem C2_frame_size_omitted_counterexample:
  "ParseFrameHeader False [0xFF, 0xFB, 0x90, 0x00]
     \<lparr>frame_size = nullptr, sample_rate = Ptr 0, channel_layout = Ptr CHANNEL_LAYOUT_MONO,
      sample_count = Ptr 0\<rparr> = NullDereference \<and>
   ParseFrameHeader True [0xFF, 0xFB, 0x90, 0x00]
     \<lparr>frame_size = nullptr, sample_rate = Ptr 0, channel_layout = Ptr CHANNEL_LAYOUT_MONO,
      sample_count = Ptr 0\<rparr> = DcheckFailure"
  by (simp add: eval_defs)

text \<open>
  C2, amended. \<open>sample_rate\<close>, \<open>channel_layout\<close> and \<open>sample_count\<close> may each be omitted;
  \<open>frame_size\<close> must be provided. With \<open>frame_size\<close> provided, for every buffer, every
  build setting and every choice of the other three, the call returns (no assertion
  fails and no null pointer is dereferenced), and on success \<open>frame_size\<close> and exactly
  the provided ones of the other three hold the decoded values, an omitted one staying
  null.
\<close>

theorem C2_optional_outputs:
  assumes "frame_size outs \<noteq> nullptr"
  shows "\<exists>ret outs'. ParseFrameHeader dcheck_is_on data outs = Returned ret outs' \<and>
     (ret = 4 \<longrightarrow>
        (\<exists>h spf. ReadHeader (BitReader_new data) = Some h \<and>
           samples_per_frame_of h = Some spf \<and>
           outs' = \<lparr> frame_size =
               Ptr (frame_size_value h (bitrate_of h) (frame_sample_rate_of h) spf),
             sample_rate = (if sample_rate outs = nullptr then nullptr
                            else Ptr (frame_sample_rate_of h)),
             channel_layout = (if channel_layout outs = nullptr then nullptr
                               else Ptr (if channel_mode h = 3 then CHANNEL_LAYOUT_MONO
                                         else CHANNEL_LAYOUT_STEREO)),
             sample_count = (if sample_count outs = nullptr then nullptr else Ptr spf) \<rparr>))"
proof (cases "length data < 4")
  case True
  then have "ParseFrameHeader dcheck_is_on data outs = Returned 0 outs"
    using assms by (simp add: ParseFrameHeader_short)
  then show ?thesis by simp
next
  case False
  then have len: "4 \<le> length data" by simp
  have pre: "dcheck_is_on \<longrightarrow> frame_size outs \<noteq> nullptr" using assms by simp
  from ReadHeader_total [OF len] obtain h where
    h: "ReadHeader (BitReader_new data) = Some h" and rng: "fields_in_range h" by blast
  note long = ParseFrameHeader_long [OF len pre h]
  show ?thesis
  proof (cases "invalid_header_data h \<or> layer2_combination_rejected h \<or>
      bitrate_of h = 0 \<or> frame_sample_rate_of h = 0")
    case True
    with long have "ParseFrameHeader dcheck_is_on data outs = Returned (- 1) outs" by simp
    then show ?thesis by simp
  next
    case False
    then have ok: "\<not> invalid_header_data h" by simp
    from valid_samples_per_frame [OF rng ok] obtain spf where
      spf: "samples_per_frame_of h = Some spf" by blast
    from False long write_outputs_frame_size_provided [OF assms spf] h spf
    show ?thesis by simp
  qed
qed

text \<open>At FF FB 90 00 with only \<open>frame_size\<close> and \<open>channel_layout\<close> provided.\<close>

theorem C2_optional_outputs_witness:
  "frame_size \<lparr>frame_size = Ptr 0, sample_rate = nullptr,
      channel_layout = Ptr CHANNEL_LAYOUT_MONO, sample_count = nullptr\<rparr> \<noteq> nullptr \<and>
   ParseFrameHeader True [0xFF, 0xFB, 0x90, 0x00]
     \<lparr>frame_size = Ptr 0, sample_rate = nullptr, channel_layout = Ptr CHANNEL_LAYOUT_MONO,
      sample_count = nullptr\<rparr> =
   Returned 4 \<lparr>frame_size = Ptr 417, sample_rate = nullptr,
      channel_layout = Ptr CHANNEL_LAYOUT_STEREO, sample_count = nullptr\<rparr>"
  using C2_optional_outputs [of "\<lparr>frame_size = Ptr 0, sample_rate = nullptr,
      channel_layout = Ptr CHANNEL_LAYOUT_MONO, sample_count = nullptr\<rparr>" True
      "[0xFF, 0xFB, 0x90, 0x00]"]
  by (simp add: eval_defs)

subsection \<open>C3: reserved and malformed fields\<close>

text \<open>
  C3. For every buffer of at least 4 bytes the ten reads succeed, and if the extracted
  fields have sync other than 0x7FF, or version 1, or layer 0, or bitrate index 0 or
  0xF, or sample rate index 3, then \<open>ParseFrameHeader\<close> returns -1, the invalid-header
  signal (which is not 0, the insufficient-data value), and leaves the output locations
  as they were. The premise on \<open>frame_size\<close> is the precondition that the function
  asserts on entry.
\<close>

theorem C3_reserved_fields_rejected:
  assumes "4 \<le> length data" and "dcheck_is_on \<longrightarrow> frame_size outs \<noteq> nullptr"
  shows "\<exists>h. ReadHeader (BitReader_new data) = Some h \<and>
     (sync h \<noteq> 0x7FF \<or> version h = 1 \<or> layer h = 0 \<or> bitrate_index h = 0 \<or>
      bitrate_index h = 0xF \<or> sample_rate_index h = 3
      \<longrightarrow> ParseFrameHeader dcheck_is_on data outs = Returned (- 1) outs)"
proof -
  from ReadHeader_total [OF assms(1)] obtain h where
    h: "ReadHeader (BitReader_new data) = Some h" by blast
  have "ParseFrameHeader dcheck_is_on data outs = Returned (- 1) outs"
    if "invalid_header_data h"
    using that ParseFrameHeader_long [OF assms h] by simp
  then show ?thesis using h
    by (auto simp: invalid_header_data_def field_constants)
qed

text \<open>At FF FB F0 00, a header with bitrate index 0xF and every other field valid.\<close>

theorem C3_reserved_fields_rejected_witness:
  "4 \<le> length [0xFF, 0xFB, 0xF0, 0x00 :: uint8] \<and>
   frame_size \<lparr>frame_size = Ptr 7, sample_rate = Ptr 7,
      channel_layout = Ptr CHANNEL_LAYOUT_MONO, sample_count = Ptr 7\<rparr> \<noteq> nullptr \<and>
   ReadHeader (BitReader_new [0xFF, 0xFB, 0xF0, 0x00]) =
     Some \<lparr>sync = 0x7FF, version = 3, layer = 1, is_protected = 1, bitrate_index = 0xF,
       sample_rate_index = 0, has_padding = 0, is_private = 0, channel_mode = 0,
       other_flags = 0\<rparr> \<and>
   ParseFrameHeader True [0xFF, 0xFB, 0xF0, 0x00]
     \<lparr>frame_size = Ptr 7, sample_rate = Ptr 7, channel_layout = Ptr CHANNEL_LAYOUT_MONO,
      sample_count = Ptr 7\<rparr> =
   Returned (- 1) \<lparr>frame_size = Ptr 7, sample_rate = Ptr 7,
      channel_layout = Ptr CHANNEL_LAYOUT_MONO, sample_count = Ptr 7\<rparr>"
  using C3_reserved_fields_rejected [of "[0xFF, 0xFB, 0xF0, 0x00]" True
      "\<lparr>frame_size = Ptr 7, sample_rate = Ptr 7, channel_layout = Ptr CHANNEL_LAYOUT_MONO,
        sample_count = Ptr 7\<rparr>"]
  by (simp add: ReadHeader_def BitReader_new_def bits_of_byte_def ReadBits_def)

subsection \<open>C4: fewer than four bytes\<close>

text \<open>
  C4. A buffer of length 0, 1, 2 or 3, whatever its bytes, makes \<open>ParseFrameHeader\<close>
  return 0, the value for insufficient data (neither 4, success, nor -1, invalid
  header): no byte is consumed and no output location is touched. The premise on
  \<open>frame_size\<close> is the precondition that the function asserts on entry; it only
  matters in a build with \<open>DCHECK\<close>s compiled in.
\<close>

theorem C4_insufficient_data:
  assumes "length data < 4" and "dcheck_is_on \<longrightarrow> frame_size outs \<noteq> nullptr"
  shows "ParseFrameHeader dcheck_is_on data outs = Returned 0 outs"
  using assms by (auto simp: ParseFrameHeader_def Let_def)

text \<open>At the first three bytes of a valid header.\<close>

theorem C4_insufficient_data_witness:
  "length [0xFF, 0xFB, 0x90 :: uint8] < 4 \<and>
   frame_size \<lparr>frame_size = Ptr 0, sample_rate = nullptr,
        channel_layout = nullptr, sample_count = nullptr\<rparr> \<noteq> nullptr \<and>
   ParseFrameHeader True [0xFF, 0xFB, 0x90]
     \<lparr>frame_size = Ptr 0, sample_rate = nullptr, channel_layout = nullptr,
      sample_count = nullptr\<rparr> =
   Returned 0 \<lparr>frame_size = Ptr 0, sample_rate = nullptr, channel_layout = nullptr,
      sample_count = nullptr\<rparr>"
  using C4_insufficient_data [of "[0xFF, 0xFB, 0x90]" True
      "\<lparr>frame_size = Ptr 0, sample_rate = nullptr, channel_layout = nullptr,
        sample_count = nullptr\<rparr>"]
  by simp

subsection \<open>C5: the frame size\<close>



subsection \<open>C6: a known header\<close>

text \<open>
  C6. Every buffer whose first four bytes encode MPEG1 (version 3), Layer III, bitrate
  index 9 (128 kbps in the MPEG1 Layer III column), sample rate index 0 (44100 Hz),
  padding clear and channel mode 0 (stereo), whatever the protection, private and
  remaining flag bits, is accepted: the call returns 4 and writes frame size 417,
  sample rate 44100, the stereo layout and sample count 1152.
\<close>

theorem C6_known_vector:
  assumes "4 \<le> length data"
    and "ReadHeader (BitReader_new data) = Some h"
    and "sync h = 0x7FF" and "version h = 3" and "layer h = kLayer3"
    and "bitrate_index h = 9" and "sample_rate_index h = 0"
    and "has_padding h = 0" and "channel_mode h = 0"
  shows "bitrate_of h = 128 \<and>
     ParseFrameHeader dcheck_is_on data
       \<lparr>frame_size = Ptr fs0, sample_rate = Ptr sr0, channel_layout = Ptr cl0,
        sample_count = Ptr sc0\<rparr> =
     Returned 4 \<lparr>frame_size = Ptr 417, sample_rate = Ptr 44100,
        channel_layout = Ptr CHANNEL_LAYOUT_STEREO, sample_count = Ptr 1152\<rparr>"
proof -
  let ?outs = "\<lparr>frame_size = Ptr fs0, sample_rate = Ptr sr0, channel_layout = Ptr cl0,
        sample_count = Ptr sc0\<rparr>"
  have pre: "dcheck_is_on \<longrightarrow> frame_size ?outs \<noteq> nullptr" by simp
  have b: "bitrate_of h = 128"
    using assms(3-9)
    by (simp add: bitrate_of_def bitrate_column_def kBitrateMap_def kVersionLayerMap_def
        field_constants)
  have sr: "frame_sample_rate_of h = 44100"
    using assms(3-9) by (simp add: frame_sample_rate_of_def kSampleRateMap_def)
  have spf: "samples_per_frame_of h = Some 1152"
    using assms(3-9) by (simp add: samples_per_frame_of_def field_constants)
  have ok: "\<not> invalid_header_data h" "\<not> layer2_combination_rejected h"
    using assms(3-9)
    by (simp_all add: invalid_header_data_def layer2_combination_rejected_def field_constants)
  have fsv: "frame_size_value h 128 44100 1152 = 417"
    using assms(3-9) by (simp add: frame_size_value_def field_constants)
  have "ParseFrameHeader dcheck_is_on data ?outs = write_outputs h 128 44100 ?outs"
    using ParseFrameHeader_long [OF assms(1) pre assms(2)] ok b sr by simp
  also have "\<dots> = Returned 4 \<lparr>frame_size = Ptr 417, sample_rate = Ptr 44100,
        channel_layout = Ptr CHANNEL_LAYOUT_STEREO, sample_count = Ptr 1152\<rparr>"
    using write_outputs_frame_size_provided [of ?outs h 1152 128 44100] spf fsv assms(9)
    by simp
  finally show ?thesis using b by simp
qed

text \<open>At the four bytes FF FB 90 00.\<close>

theorem C6_known_vector_witness:
  "4 \<le> length [0xFF, 0xFB, 0x90, 0x00 :: uint8] \<and>
   ReadHeader (BitReader_new [0xFF, 0xFB, 0x90, 0x00]) =
     Some \<lparr>sync = 0x7FF, version = 3, layer = 1, is_protected = 1, bitrate_index = 9,
       sample_rate_index = 0, has_padding = 0, is_private = 0, channel_mode = 0,
       other_flags = 0\<rparr> \<and>
   kLayer3 = 1 \<and>
   ParseFrameHeader True [0xFF, 0xFB, 0x90, 0x00]
     \<lparr>frame_size = Ptr 0, sample_rate = Ptr 0, channel_layout = Ptr CHANNEL_LAYOUT_MONO,
      sample_count = Ptr 0\<rparr> =
   Returned 4 \<lparr>frame_size = Ptr 417, sample_rate = Ptr 44100,
      channel_layout = Ptr CHANNEL_LAYOUT_STEREO, sample_count = Ptr 1152\<rparr>"
proof -
  let ?h = "\<lparr>sync = 0x7FF, version = 3, layer = 1, is_protected = 1, bitrate_index = 9,
       sample_rate_index = 0, has_padding = 0, is_private = 0, channel_mode = 0,
       other_flags = 0\<rparr>"
  have len: "4 \<le> length [0xFF, 0xFB, 0x90, 0x00 :: uint8]" by simp
  have h: "ReadHeader (BitReader_new [0xFF, 0xFB, 0x90, 0x00]) = Some ?h"
    by (simp add: ReadHeader_def BitReader_new_def bits_of_byte_def ReadBits_def)
  have l3: "kLayer3 = 1" by (simp add: kLayer3_def)
  from C6_known_vector [OF len h, of True 0 0 CHANNEL_LAYOUT_MONO 0] l3 len h
  show ?thesis by simp
qed

subsection \<open>C7: the sample count\<close>



subsection \<open>C8: the derived outputs\<close>

text \<open>
  C8. When \<open>ParseFrameHeader\<close> succeeds, the frame size written is at least 4; a
  provided \<open>sample_rate\<close> holds a nonzero (hence positive) entry of \<open>kSampleRateMap\<close>; a
  provided \<open>channel_layout\<close> holds the mono layout exactly when the channel mode is 3
  and the stereo layout exactly when it is 0, 1 or 2; a provided \<open>sample_count\<close> holds
  384, 576 or 1152. A location holds a value afterwards exactly when it was provided.
\<close>

theorem C8_derived_outputs:
  assumes "ParseFrameHeader dcheck_is_on data outs = Returned 4 outs'"
  shows "\<exists>h fs. ReadHeader (BitReader_new data) = Some h \<and>
     frame_size outs' = Ptr fs \<and> 4 \<le> fs \<and>
     (\<forall>sr. sample_rate outs' = Ptr sr \<longrightarrow>
        sr \<in> set (concat kSampleRateMap) \<and> sr \<noteq> 0 \<and> 0 < sr) \<and>
     (\<forall>cl. channel_layout outs' = Ptr cl \<longrightarrow>
        (cl = CHANNEL_LAYOUT_MONO \<longleftrightarrow> channel_mode h = 3) \<and>
        (cl = CHANNEL_LAYOUT_STEREO \<longleftrightarrow>
           channel_mode h = 0 \<or> channel_mode h = 1 \<or> channel_mode h = 2)) \<and>
     (\<forall>sc. sample_count outs' = Ptr sc \<longrightarrow> sc = 384 \<or> sc = 576 \<or> sc = 1152) \<and>
     (sample_rate outs' = nullptr \<longleftrightarrow> sample_rate outs = nullptr) \<and>
     (channel_layout outs' = nullptr \<longleftrightarrow> channel_layout outs = nullptr) \<and>
     (sample_count outs' = nullptr \<longleftrightarrow> sample_count outs = nullptr)"
proof -
  from ParseFrameHeader_success [OF assms] obtain h spf where
    h: "ReadHeader (BitReader_new data) = Some h" and rng: "fields_in_range h"
    and ok: "\<not> invalid_header_data h" and b0: "bitrate_of h \<noteq> 0"
    and spf: "samples_per_frame_of h = Some spf"
    and fs: "frame_size outs' =
        Ptr (frame_size_value h (bitrate_of h) (frame_sample_rate_of h) spf)"
    and sr: "sample_rate outs' =
        (if sample_rate outs = nullptr then nullptr else Ptr (frame_sample_rate_of h))"
    and cl: "channel_layout outs' = (if channel_layout outs = nullptr then nullptr
        else Ptr (if channel_mode h = 3 then CHANNEL_LAYOUT_MONO else CHANNEL_LAYOUT_STEREO))"
    and sc: "sample_count outs' = (if sample_count outs = nullptr then nullptr else Ptr spf)"
    by force
  have b: "8 \<le> bitrate_of h" using valid_bitrate [OF rng ok] b0 by auto
  have srv: "frame_sample_rate_of h \<in>
      {11025, 22050, 44100, 12000, 24000, 48000, 8000, 16000, 32000}"
    by (rule valid_frame_sample_rate [OF rng ok])
  have s: "spf \<in> {384, 576, 1152}"
    using valid_samples_per_frame [OF rng ok] spf by auto
  have pad: "0 \<le> has_padding h" using rng by (simp add: fields_in_range_def)
  have cm: "channel_mode h = 0 \<or> channel_mode h = 1 \<or> channel_mode h = 2 \<or>
      channel_mode h = 3"
    using rng unfolding fields_in_range_def by arith
  have fs4: "4 \<le> frame_size_value h (bitrate_of h) (frame_sample_rate_of h) spf"
    using srv by (intro frame_size_value_ge_4 [OF b _ _ s pad]) auto
  have srs: "frame_sample_rate_of h \<in> set (concat kSampleRateMap) \<and>
      frame_sample_rate_of h \<noteq> 0 \<and> 0 < frame_sample_rate_of h"
    using srv by (auto simp: kSampleRateMap_def)
  have A: "\<forall>sr. sample_rate outs' = Ptr sr \<longrightarrow>
        sr \<in> set (concat kSampleRateMap) \<and> sr \<noteq> 0 \<and> 0 < sr"
    using sr srs by (auto split: if_splits)
  have B: "\<forall>cl. channel_layout outs' = Ptr cl \<longrightarrow>
        (cl = CHANNEL_LAYOUT_MONO \<longleftrightarrow> channel_mode h = 3) \<and>
        (cl = CHANNEL_LAYOUT_STEREO \<longleftrightarrow>
           channel_mode h = 0 \<or> channel_mode h = 1 \<or> channel_mode h = 2)"
    using cl cm by (auto split: if_splits)
  have C: "\<forall>sc. sample_count outs' = Ptr sc \<longrightarrow> sc = 384 \<or> sc = 576 \<or> sc = 1152"
    using sc s by (auto split: if_splits)
  have D: "(sample_rate outs' = nullptr \<longleftrightarrow> sample_rate outs = nullptr) \<and>
     (channel_layout outs' = nullptr \<longleftrightarrow> channel_layout outs = nullptr) \<and>
     (sample_count outs' = nullptr \<longleftrightarrow> sample_count outs = nullptr)"
    using sr cl sc by simp
  from h fs fs4 A B C D show ?thesis by blast
qed

text \<open>At FF E3 18 C4: MPEG2.5, Layer III, 8 kbps, 8000 Hz, single channel.\<close>

theorem C8_derived_outputs_witness:
  "ParseFrameHeader False [0xFF, 0xE3, 0x18, 0xC4]
     \<lparr>frame_size = Ptr 0, sample_rate = Ptr 0, channel_layout = Ptr CHANNEL_LAYOUT_STEREO,
      sample_count = Ptr 0\<rparr> =
   Returned 4 \<lparr>frame_size = Ptr 72, sample_rate = Ptr 8000,
      channel_layout = Ptr CHANNEL_LAYOUT_MONO, sample_count = Ptr 576\<rparr> \<and>
   ReadHeader (BitReader_new [0xFF, 0xE3, 0x18, 0xC4]) =
     Some \<lparr>sync = 0x7FF, version = 0, layer = 1, is_protected = 1, bitrate_index = 1,
       sample_rate_index = 2, has_padding = 0, is_private = 0, channel_mode = 3,
       other_flags = 4\<rparr> \<and>
   (8000 :: int) \<in> set (concat kSampleRateMap)"
  using C8_derived_outputs [of False "[0xFF, 0xE3, 0x18, 0xC4]"
      "\<lparr>frame_size = Ptr 0, sample_rate = Ptr 0, channel_layout = Ptr CHANNEL_LAYOUT_STEREO,
        sample_count = Ptr 0\<rparr>"
      "\<lparr>frame_size = Ptr 72, sample_rate = Ptr 8000,
        channel_layout = Ptr CHANNEL_LAYOUT_MONO, sample_count = Ptr 576\<rparr>"]
  by (simp add: eval_defs)

subsection \<open>C9: the bitrate table column\<close>

text \<open>
  C9. For every buffer of at least 4 bytes whose header passes the field checks (so
  its version is not 1 and its layer is not 0), the column that indexes \<open>kBitrateMap\<close>,
  \<open>kVersionLayerMap[version][layer]\<close>, is never the reserved value 5: it lies in 0..4.
\<close>

theorem C9_bitrate_column_not_reserved:
  assumes "4 \<le> length data"
  shows "\<exists>h. ReadHeader (BitReader_new data) = Some h \<and>
     (\<not> invalid_header_data h \<longrightarrow>
        version h \<noteq> 1 \<and> layer h \<noteq> 0 \<and>
        bitrate_column h = kVersionLayerMap ! nat (version h) ! nat (layer h) \<and>
        bitrate_column h \<noteq> 5 \<and> 0 \<le> bitrate_column h \<and> bitrate_column h \<le> 4)"
proof -
  from ReadHeader_total [OF assms] obtain h where
    h: "ReadHeader (BitReader_new data) = Some h" and rng: "fields_in_range h" by blast
  show ?thesis
    using h valid_bitrate_column [OF rng] valid_version [OF rng] valid_layer [OF rng]
    by (auto simp: bitrate_column_def)
qed

text \<open>At FF E3 18 C4 (MPEG2.5, Layer III), whose column is 4.\<close>

theorem C9_bitrate_column_not_reserved_witness:
  "4 \<le> length [0xFF, 0xE3, 0x18, 0xC4 :: uint8] \<and>
   ReadHeader (BitReader_new [0xFF, 0xE3, 0x18, 0xC4]) =
     Some \<lparr>sync = 0x7FF, version = 0, layer = 1, is_protected = 1, bitrate_index = 1,
       sample_rate_index = 2, has_padding = 0, is_private = 0, channel_mode = 3,
       other_flags = 4\<rparr> \<and>
   \<not> invalid_header_data \<lparr>sync = 0x7FF, version = 0, layer = 1, is_protected = 1,
       bitrate_index = 1, sample_rate_index = 2, has_padding = 0, is_private = 0,
       channel_mode = 3, other_flags = 4\<rparr> \<and>
   bitrate_column \<lparr>sync = 0x7FF, version = 0, layer = 1, is_protected = 1,
       bitrate_index = 1, sample_rate_index = 2, has_padding = 0, is_private = 0,
       channel_mode = 3, other_flags = 4\<rparr> = 4"
  using C9_bitrate_column_not_reserved [of "[0xFF, 0xE3, 0x18, 0xC4]"]
  by (simp add: eval_defs)

subsection \<open>C10: failure writes nothing\<close>

text \<open>
  C10. Whenever \<open>ParseFrameHeader\<close> returns 0 (insufficient data) or -1 (invalid
  header), for any contents of the caller's locations, the locations are as they were
  before the call: none was written. In particular the \<open>default\<close> branch of the
  \<open>switch\<close>, which would return -1 after \<open>*sample_rate\<close> has been written, is never
  taken: every header that is read and passes the field checks has layer I, II or
  III, for which the \<open>switch\<close> yields a sample count.
\<close>

theorem C10_failure_writes_nothing:
  assumes "ParseFrameHeader dcheck_is_on data outs = Returned ret outs'"
    and "ret = 0 \<or> ret = - 1"
  shows "outs' = outs \<and>
     (\<forall>h. ReadHeader (BitReader_new data) = Some h \<and> \<not> invalid_header_data h \<longrightarrow>
        (layer h = kLayer1 \<or> layer h = kLayer2 \<or> layer h = kLayer3) \<and>
        samples_per_frame_of h \<noteq> None)"
proof -
  have layers: "(layer h = kLayer1 \<or> layer h = kLayer2 \<or> layer h = kLayer3) \<and>
      samples_per_frame_of h \<noteq> None"
    if "ReadHeader (BitReader_new data) = Some h" "\<not> invalid_header_data h" for h
    using valid_layer [OF ReadHeader_Some_range [OF that(1)] that(2)]
      valid_samples_per_frame [OF ReadHeader_Some_range [OF that(1)] that(2)]
    by (auto simp: field_constants)
  have pre: "dcheck_is_on \<longrightarrow> frame_size outs \<noteq> nullptr"
    using assms(1) by (auto simp: ParseFrameHeader_def Let_def split: if_splits)
  have "outs' = outs"
  proof (cases "length data < 4")
    case True
    from ParseFrameHeader_short [OF True pre] assms(1) show ?thesis by simp
  next
    case False
    then have len: "4 \<le> length data" by simp
    from ReadHeader_total [OF len] obtain h where
      h: "ReadHeader (BitReader_new data) = Some h" and rng: "fields_in_range h" by blast
    note long = ParseFrameHeader_long [OF len pre h]
    show ?thesis
    proof (cases "invalid_header_data h \<or> layer2_combination_rejected h \<or>
        bitrate_of h = 0 \<or> frame_sample_rate_of h = 0")
      case True
      with long assms(1) show ?thesis by simp
    next
      case False
      then have ok: "\<not> invalid_header_data h" by simp
      from valid_samples_per_frame [OF rng ok] obtain spf where
        spf: "samples_per_frame_of h = Some spf" by blast
      have w: "write_outputs h (bitrate_of h) (frame_sample_rate_of h) outs =
          Returned ret outs'"
        using False long assms(1) by simp
      show ?thesis
      proof (cases "frame_size outs = nullptr")
        case True
        from write_outputs_frame_size_null [OF True spf] w show ?thesis by simp
      next
        case False
        from write_outputs_frame_size_provided [OF False spf] w assms(2)
        show ?thesis by auto
      qed
    qed
  qed
  with layers show ?thesis by blast
qed

text \<open>
  At FF FD 80 00, a Layer II header that passes the field checks and is then rejected:
  -1 is returned and the four locations keep their contents.
\<close>

theorem C10_failure_writes_nothing_witness:
  "ParseFrameHeader False [0xFF, 0xFD, 0x80, 0x00]
     \<lparr>frame_size = Ptr 0, sample_rate = Ptr 0, channel_layout = Ptr CHANNEL_LAYOUT_MONO,
      sample_count = Ptr 0\<rparr> =
   Returned (- 1) \<lparr>frame_size = Ptr 0, sample_rate = Ptr 0,
      channel_layout = Ptr CHANNEL_LAYOUT_MONO, sample_count = Ptr 0\<rparr> \<and>
   ReadHeader (BitReader_new [0xFF, 0xFD, 0x80, 0x00]) =
     Some \<lparr>sync = 0x7FF, version = 3, layer = 2, is_protected = 1, bitrate_index = 8,
       sample_rate_index = 0, has_padding = 0, is_private = 0, channel_mode = 0,
       other_flags = 0\<rparr> \<and>
   \<not> invalid_header_data \<lparr>sync = 0x7FF, version = 3, layer = 2, is_protected = 1,
       bitrate_index = 8, sample_rate_index = 0, has_padding = 0, is_private = 0,
       channel_mode = 0, other_flags = 0\<rparr> \<and>
   samples_per_frame_of \<lparr>sync = 0x7FF, version = 3, layer = 2, is_protected = 1,
       bitrate_index = 8, sample_rate_index = 0, has_padding = 0, is_private = 0,
       channel_mode = 0, other_flags = 0\<rparr> = Some 1152"
  using C10_failure_writes_nothing [of False "[0xFF, 0xFD, 0x80, 0x00]"
      "\<lparr>frame_size = Ptr 0, sample_rate = Ptr 0, channel_layout = Ptr CHANNEL_LAYOUT_MONO,
        sample_count = Ptr 0\<rparr>" "- 1"
      "\<lparr>frame_size = Ptr 0, sample_rate = Ptr 0, channel_layout = Ptr CHANNEL_LAYOUT_MONO,
        sample_count = Ptr 0\<rparr>"]
  by (simp add: eval_defs)

end
